theory Spec2Isabelle
  imports Main "HOL-Library.Sublist"
begin

section \<open>Common data\<close>

text \<open>
  A Python \<open>str\<close> is modelled as a HOL \<open>string\<close>; one \<open>char\<close> stands for one code
  point in the range 0..255, so \<open>length\<close> counts code points as Python's \<open>len\<close> does.
  \<open>Optional[str]\<close> is \<open>string option\<close>, with \<open>None\<close> for Python's \<open>None\<close>.
\<close>

datatype py_error =
    ValueError
  | OverflowError
  | PWTimeoutError
  | OtherError string

definition ENTRY_URL :: string where
  "ENTRY_URL = ''https://www.sarasotasheriff.org/arrest-reports/index.php''"

text \<open>
  The dataclass \<open>ArrestRow\<close>.  Its constructor defaults every field to \<open>None\<close> except
  \<open>source_url\<close>, which defaults to \<open>ENTRY_URL\<close>; \<open>mk_ArrestRow\<close> is the constructor call
  with the eight keyword arguments that every extraction strategy passes.
\<close>

record ArrestRow =
  arrest_date :: "string option"
  name :: "string option"
  dob :: "string option"
  age :: "string option"
  charges :: "string option"
  agency :: "string option"
  booking_number :: "string option"
  bond :: "string option"
  arrest_time :: "string option"
  source_url :: "string option"

definition mk_ArrestRow ::
  "string option \<Rightarrow> string option \<Rightarrow> string option \<Rightarrow> string option \<Rightarrow>
   string option \<Rightarrow> string option \<Rightarrow> string option \<Rightarrow> string option \<Rightarrow> ArrestRow" where
  "mk_ArrestRow a_date a_name a_dob a_age a_charges a_agency a_booking a_bond =
     \<lparr> arrest_date = a_date, name = a_name, dob = a_dob, age = a_age,
       charges = a_charges, agency = a_agency, booking_number = a_booking,
       bond = a_bond, arrest_time = None, source_url = Some ENTRY_URL \<rparr>"

text \<open>
  \<open>dataclasses.asdict\<close>: the record as a dictionary, keys in field order.  A dictionary
  is an association list, since the order of its keys decides the column order later.
\<close>

type_synonym pydict = "(string \<times> string option) list"

definition asdict :: "ArrestRow \<Rightarrow> pydict" where
  "asdict r =
     [(''arrest_date'', arrest_date r), (''name'', name r), (''dob'', dob r),
      (''age'', age r), (''charges'', charges r), (''agency'', agency r),
      (''booking_number'', booking_number r), (''bond'', bond r),
      (''arrest_time'', arrest_time r), (''source_url'', source_url r)]"

section \<open>String operations of the Python library\<close>

text \<open>
  \<open>str.isspace\<close> on one code point below 256 (also the class \<open>\s\<close> of \<open>re\<close> on
  \<open>str\<close> patterns): the ASCII controls 9..13 and 28..31, the space, NEL (133) and the
  no-break space (160).
\<close>

definition is_space :: "char \<Rightarrow> bool" where
  "is_space c = (c \<in> set [CHR 0x09, CHR 0x0A, CHR 0x0B, CHR 0x0C, CHR 0x0D,
                            CHR 0x1C, CHR 0x1D, CHR 0x1E, CHR 0x1F, CHR 0x20,
                            CHR 0x85, CHR 0xA0])"

text \<open>The class \<open>\d\<close>: below code point 256 the decimal digits are \<open>0\<close>..\<open>9\<close> only.\<close>

definition is_digit :: "char \<Rightarrow> bool" where
  "is_digit c = (c \<in> set ''0123456789'')"

text \<open>
  \<open>str.lower\<close>: below code point 256 the upper-case letters are \<open>A\<close>..\<open>Z\<close> and
  192..222 without the multiplication sign 215; each has its lower-case letter 32 above.
\<close>

definition lower_char :: "char \<Rightarrow> char" where
  "lower_char c = (let n = (of_char c :: nat) in
     if (65 \<le> n \<and> n \<le> 90) \<or> (192 \<le> n \<and> n \<le> 222 \<and> n \<noteq> 215)
     then char_of (n + 32) else c)"

definition lower :: "string \<Rightarrow> string" where
  "lower s = map lower_char s"

text \<open>\<open>str.strip()\<close> removes the white space at both ends.\<close>

definition strip :: "string \<Rightarrow> string" where
  "strip s = rev (dropWhile is_space (rev (dropWhile is_space s)))"

text \<open>\<open>needle in haystack\<close> on strings: some suffix of the haystack starts with the needle.\<close>

fun py_in :: "string \<Rightarrow> string \<Rightarrow> bool" where
  "py_in needle [] = (needle = [])"
| "py_in needle (c # cs) = (prefix needle (c # cs) \<or> py_in needle cs)"

text \<open>\<open>s.split(sep)\<close> for a one-character separator; the result is never empty.\<close>

fun split_on :: "char \<Rightarrow> string \<Rightarrow> string list" where
  "split_on sep [] = [[]]"
| "split_on sep (c # cs) =
     (if c = sep then [] # split_on sep cs
      else (case split_on sep cs of [] \<Rightarrow> [[c]] | x # xs \<Rightarrow> (c # x) # xs))"

text \<open>
  \<open>a or b\<close> on \<open>Optional[str]\<close>: the first operand when it is truthy (neither \<open>None\<close>
  nor the empty string), the second otherwise.
\<close>

definition py_or :: "string option \<Rightarrow> string option \<Rightarrow> string option" where
  "py_or a b = (case a of None \<Rightarrow> b | Some s \<Rightarrow> if s = [] then b else Some s)"

section \<open>Deduplication (the tail of \<open>scrape_for_date\<close>)\<close>






section \<open>Whole-session retry (the \<open>@retry\<close> decorator of \<open>scrape_for_date\<close>)\<close>

text \<open>
  One attempt of a session is a function of the outside world: it returns the records or
  raises, and leaves the world changed.  The decorator comes from the tenacity library and
  is given by its four arguments:
  \<^item> \<open>retry_if_exception_type(PWTimeoutError)\<close>: another attempt is made only after an
    attempt that raised \<open>PWTimeoutError\<close>;
  \<^item> \<open>stop_after_attempt(n)\<close>: no attempt follows attempt number \<open>n\<close>;
  \<^item> \<open>reraise=True\<close>: when the attempts are used up, the last exception is raised;
  \<^item> \<open>wait_exponential(multiplier, min, max)\<close>: after attempt number \<open>k\<close> the call
    sleeps \<open>multiplier * 2 ^ (k - 1)\<close> seconds, clamped to \<open>min\<close>..\<open>max\<close>.
\<close>

definition wait_exponential :: "nat \<Rightarrow> nat \<Rightarrow> nat \<Rightarrow> nat \<Rightarrow> nat" where
  "wait_exponential multiplier mn mx attempt_number =
     max (max 0 mn) (min (multiplier * 2 ^ (attempt_number - 1)) mx)"

text \<open>
  The result of a decorated call: what it returns or raises, the number of attempts made,
  the seconds slept between them, and the world afterwards.
\<close>

type_synonym ('a, 'w) attempt = "'w \<Rightarrow> (py_error + 'a) \<times> 'w"

function retry_call ::
  "nat \<Rightarrow> (nat \<Rightarrow> nat) \<Rightarrow> ('a, 'w) attempt \<Rightarrow> nat \<Rightarrow> nat list \<Rightarrow> 'w
   \<Rightarrow> (py_error + 'a) \<times> nat \<times> nat list \<times> 'w" where
  "retry_call max_attempt wait body attempt_number slept w =
     (case body w of
        (Inr v, w') \<Rightarrow> (Inr v, attempt_number, slept, w')
      | (Inl e, w') \<Rightarrow>
          if e \<noteq> PWTimeoutError then (Inl e, attempt_number, slept, w')
          else if attempt_number \<ge> max_attempt then (Inl e, attempt_number, slept, w')
          else retry_call max_attempt wait body (Suc attempt_number)
                 (slept @ [wait attempt_number]) w')"
  by pat_completeness auto
termination
  by (relation "measure (\<lambda>(max_attempt, wait, body, attempt_number, slept, w).
        max_attempt - attempt_number)") auto

text \<open>
  \<open>scrape_for_date\<close> of \<open>sarasota_scraper.py\<close> (three attempts) and of
  \<open>sarasota_scraper_v2.py\<close> (two attempts); \<open>session\<close> is the decorated function body.
\<close>

definition scrape_for_date ::
  "(string \<Rightarrow> ('a, 'w) attempt) \<Rightarrow> string \<Rightarrow> 'w \<Rightarrow> (py_error + 'a) \<times> nat \<times> nat list \<times> 'w" where
  "scrape_for_date session date_str w =
     retry_call 3 (wait_exponential 1 1 6) (session date_str) 1 [] w"

definition scrape_for_date_v2 ::
  "(string \<Rightarrow> ('a, 'w) attempt) \<Rightarrow> string \<Rightarrow> 'w \<Rightarrow> (py_error + 'a) \<times> nat \<times> nat list \<times> 'w" where
  "scrape_for_date_v2 session date_str w =
     retry_call 2 (wait_exponential 1 1 6) (session date_str) 1 [] w"

section \<open>Batch driver (the loop of \<open>main\<close>)\<close>

text \<open>
  The loop \<open>for d in dates\<close> with its \<open>try\<close>/\<open>except Exception\<close>: the records of a date
  that returns are appended to \<open>all_records\<close>; for a date that raises, one line naming the
  date and the error goes to standard error, kept here in \<open>errs\<close>.  \<open>scrape\<close> is the
  decorated \<open>scrape_for_date\<close> as a function of the date and the world.
\<close>

fun batch_loop ::
  "(string \<Rightarrow> ('r list, 'w) attempt) \<Rightarrow> string list \<Rightarrow> 'r list \<Rightarrow> (string \<times> py_error) list \<Rightarrow> 'w
   \<Rightarrow> 'r list \<times> (string \<times> py_error) list \<times> 'w" where
  "batch_loop scrape [] all_records errs w = (all_records, errs, w)"
| "batch_loop scrape (d # dates) all_records errs w =
     (case scrape d w of
        (Inr recs, w') \<Rightarrow> batch_loop scrape dates (all_records @ recs) errs w'
      | (Inl e, w') \<Rightarrow> batch_loop scrape dates all_records (errs @ [(d, e)]) w')"

text \<open>The outcome of each date of a batch, in order, the world threaded through.\<close>

fun date_outcomes ::
  "(string \<Rightarrow> ('r list, 'w) attempt) \<Rightarrow> string list \<Rightarrow> 'w \<Rightarrow> (string \<times> (py_error + 'r list)) list" where
  "date_outcomes scrape [] w = []"
| "date_outcomes scrape (d # dates) w =
     (d, fst (scrape d w)) # date_outcomes scrape dates (snd (scrape d w))"

text \<open>
  The decorated function as the loop calls it: the attempt count and the sleeps of the
  decorator are not visible to the caller.
\<close>

definition decorated ::
  "(string \<Rightarrow> 'w \<Rightarrow> (py_error + 'a) \<times> nat \<times> nat list \<times> 'w) \<Rightarrow> string \<Rightarrow> ('a, 'w) attempt" where
  "decorated f d w = (case f d w of (r, n, slept, w') \<Rightarrow> (r, w'))"

text \<open>
  A scripted world for examples: the world is the list of the outcomes still to come,
  and each attempt takes the next one.
\<close>

definition scripted :: "string \<Rightarrow> ('a, (py_error + 'a) list) attempt" where
  "scripted d w = (case w of [] \<Rightarrow> (Inl (OtherError ''script exhausted''), []) | r # rs \<Rightarrow> (r, rs))"

section \<open>Table strategy (\<open>extract_rows_from_table\<close>)\<close>

text \<open>
  What the function reads of a table element: the inner text of each header cell
  (\<open>thead th, thead td\<close>), and for each body row (\<open>tbody tr\<close>) the inner text of each of
  its cells (\<open>td,th\<close>), in document order.
\<close>

record table_el =
  thead_cells :: "string list"
  tbody_rows :: "string list list"

text \<open>
  \<open>dict(zip(headers, cells))\<close> followed by \<open>data.get\<close>: \<open>zip\<close> stops at the shorter
  list, and of two equal headers the later one wins.
\<close>

definition dict_zip_get :: "string list \<Rightarrow> string list \<Rightarrow> string \<Rightarrow> string option" where
  "dict_zip_get headers cells = map_of (rev (zip headers cells))"

definition extract_rows_from_table :: "table_el \<Rightarrow> ArrestRow list" where
  "extract_rows_from_table t =
     (let headers = map (\<lambda>h. lower (strip h)) (thead_cells t) in
      map (\<lambda>tr.
             let cells = map strip tr;
                 data = dict_zip_get headers cells
             in mk_ArrestRow
                  (py_or (data ''arrest date'') (data ''date''))
                  (data ''name'')
                  (py_or (data ''dob'') (data ''date of birth''))
                  (data ''age'')
                  (py_or (data ''charges'') (data ''charge''))
                  (py_or (data ''agency'') (data ''arresting agency''))
                  (py_or (data ''booking #'') (data ''booking number''))
                  (data ''bond''))
          (tbody_rows t))"

section \<open>Regular expressions of the \<open>re\<close> module\<close>

text \<open>
  The patterns of the source use literals, character classes repeated greedily,
  alternatives, capturing groups and the anchors \<open>^\<close> and \<open>$\<close>.  A pattern is a list of
  items matched in sequence.  \<open>Cls p lo hi\<close> is the class \<open>p\<close> repeated at least \<open>lo\<close>
  and at most \<open>hi\<close> times (\<open>None\<close>: no upper bound); \<open>Grp n\<close> is the group with number
  \<open>n\<close>.  \<open>GrpEnd\<close> occurs only while matching: it marks where a group ends and keeps the
  text that was left when the group began.
\<close>

datatype rx =
    Lit string
  | Cls "char \<Rightarrow> bool" nat "nat option"
  | Alt "rx list" "rx list"
  | Grp nat "rx list"
  | GrpEnd nat string
  | Bol
  | Eol

text \<open>With the flag \<open>re.I\<close> (\<open>ic\<close>) a literal matches whatever the case of the letters.\<close>

definition lit_matches :: "bool \<Rightarrow> string \<Rightarrow> string \<Rightarrow> bool" where
  "lit_matches ic l s = (if ic then lower s = lower l else s = l)"

text \<open>How many repetitions a greedy class takes at first: as many as there are, up to its bound.\<close>

definition greedy_count :: "(char \<Rightarrow> bool) \<Rightarrow> nat option \<Rightarrow> string \<Rightarrow> nat" where
  "greedy_count p hi s =
     (case hi of None \<Rightarrow> length (takeWhile p s) | Some h \<Rightarrow> min h (length (takeWhile p s)))"

text \<open>Backtracking into a repetition: the counts from \<open>n\<close> down to \<open>lo\<close>, the first that succeeds.\<close>

fun try_counts :: "(nat \<Rightarrow> 'a option) \<Rightarrow> nat \<Rightarrow> nat \<Rightarrow> 'a option" where
  "try_counts f lo 0 = (if lo = 0 then f 0 else None)"
| "try_counts f lo (Suc n) =
     (if Suc n < lo then None
      else (case f (Suc n) of Some r \<Rightarrow> Some r | None \<Rightarrow> try_counts f lo n))"

text \<open>
  The backtracking matcher: the items still to match, the position in the subject, the
  text left from there, and the groups captured so far.  It returns the position where
  the match ends and the groups, for the first way of matching that succeeds.
\<close>

type_synonym groups = "nat \<Rightarrow> string option"

function run :: "bool \<Rightarrow> rx list \<Rightarrow> nat \<Rightarrow> string \<Rightarrow> groups \<Rightarrow> (nat \<times> groups) option" where
  "run ic [] pos rest caps = Some (pos, caps)"
| "run ic (Lit l # k) pos rest caps =
     (if length l \<le> length rest \<and> lit_matches ic l (take (length l) rest)
      then run ic k (pos + length l) (drop (length l) rest) caps
      else None)"
| "run ic (Cls p lo hi # k) pos rest caps =
     try_counts (\<lambda>n. run ic k (pos + n) (drop n rest) caps) lo (greedy_count p hi rest)"
| "run ic (Alt a b # k) pos rest caps =
     (case run ic (a @ k) pos rest caps of
        Some r \<Rightarrow> Some r
      | None \<Rightarrow> run ic (b @ k) pos rest caps)"
| "run ic (Grp n body # k) pos rest caps = run ic (body @ GrpEnd n rest # k) pos rest caps"
| "run ic (GrpEnd n start # k) pos rest caps =
     run ic k pos rest (caps(n \<mapsto> take (length start - length rest) start))"
| "run ic (Bol # k) pos rest caps = (if pos = 0 then run ic k pos rest caps else None)"
| "run ic (Eol # k) pos rest caps =
     (if rest = [] \<or> rest = [CHR 0x0A] then run ic k pos rest caps else None)"
  by pat_completeness auto
termination
  by (relation "measure (\<lambda>(ic, rs, pos, rest, caps). size_list size rs)") auto

text \<open>\<open>re.match\<close>: the pattern matched from the start of the subject.\<close>

definition re_match :: "bool \<Rightarrow> rx list \<Rightarrow> string \<Rightarrow> groups option" where
  "re_match ic r s = map_option snd (run ic r 0 s (\<lambda>n. None))"




section \<open>Card strategy (\<open>extract_rows_from_cards\<close>)\<close>















section \<open>Pagination (\<open>paginate\<close>) and its caller\<close>

definition next_buttons :: "string list" where
  \<open>next_buttons =
     [''a:has-text("Next")'', ''button:has-text("Next")'', ''a[rel="next"]'',
      ''button:has-text("Load More")'', ''a:has-text("Load More")'']\<close>

text \<open>
  What \<open>paginate\<close> needs of the page, as functions of the page state \<open>'p\<close>: the number
  of elements a selector locates, whether the first of them is enabled, the click on
  the first of them (\<open>False\<close> when the click raises, which the loop's \<open>except\<close>
  swallows), and the wait of a given number of milliseconds.
\<close>

record 'p page_ops =
  loc_count :: "'p \<Rightarrow> string \<Rightarrow> nat"
  first_is_enabled :: "'p \<Rightarrow> string \<Rightarrow> bool"
  first_click :: "'p \<Rightarrow> string \<Rightarrow> bool \<times> 'p"
  wait_for_timeout :: "'p \<Rightarrow> nat \<Rightarrow> 'p"

text \<open>
  The inner \<open>for sel in ...\<close> loop: the value of \<open>clicked\<close> when it ends, and the page.
\<close>

fun click_first_enabled :: "'p page_ops \<Rightarrow> string list \<Rightarrow> 'p \<Rightarrow> bool \<times> 'p" where
  "click_first_enabled ops [] p = (False, p)"
| "click_first_enabled ops (sel # sels) p =
     (if loc_count ops p sel > 0 \<and> first_is_enabled ops p sel then
        (case first_click ops p sel of
           (True, p') \<Rightarrow> (True, wait_for_timeout ops p' 800)
         | (False, p') \<Rightarrow> click_first_enabled ops sels p')
      else click_first_enabled ops sels p)"

text \<open>
  The outer \<open>while True\<close> loop.  It has no other exit than \<open>not clicked\<close>; \<open>None\<close> is
  the loop that never ends.
\<close>

partial_function (option) paginate :: "'p page_ops \<Rightarrow> 'p \<Rightarrow> 'p option" where
  "paginate ops p =
     (let r = click_first_enabled ops next_buttons p in
      if fst r then paginate ops (snd r) else Some (snd r))"

text \<open>
  Lines 329 to 332 of \<open>scrape_for_date\<close>: wait, paginate, extract.  The caller passes
  no bound to \<open>paginate\<close> and puts none around it.
\<close>

definition paginate_then_extract :: "'p page_ops \<Rightarrow> ('p \<Rightarrow> 'r) \<Rightarrow> 'p \<Rightarrow> 'r option" where
  "paginate_then_extract ops try_extract_rows p =
     map_option try_extract_rows (paginate ops (wait_for_timeout ops p 1500))"

text \<open>The page after \<open>n\<close> rounds of the outer loop.\<close>

fun after_rounds :: "'p page_ops \<Rightarrow> nat \<Rightarrow> 'p \<Rightarrow> 'p" where
  "after_rounds ops 0 p = p"
| "after_rounds ops (Suc n) p = after_rounds ops n (snd (click_first_enabled ops next_buttons p))"

section \<open>Sink upload (\<open>upload_to_google_sheets\<close>) and the end of \<open>main\<close>\<close>

text \<open>
  A cell of the uploaded sheet: a text, Python's \<open>None\<close>, or the \<open>NaN\<close> that pandas puts
  where a record lacks the column's key.
\<close>

datatype cell = Txt string | NoneCell | NaN

text \<open>
  The columns of \<open>pd.DataFrame(records)\<close>: the keys of the records in the order of their
  first appearance.
\<close>

definition df_columns :: "pydict list \<Rightarrow> string list" where
  "df_columns records = rev (remdups (rev (concat (map (map fst) records))))"

definition col_order :: "string list" where
  "col_order = [''arrest_date'', ''name'', ''dob'', ''age'', ''booking_number'',
                ''agency'', ''bond'', ''arrest_time'', ''charges'', ''source_url'']"

definition df_cell :: "pydict \<Rightarrow> string \<Rightarrow> cell" where
  "df_cell r c = (case map_of r c of None \<Rightarrow> NaN | Some None \<Rightarrow> NoneCell | Some (Some s) \<Rightarrow> Txt s)"

text \<open>\<open>data_to_upload\<close>: the header row, then one row for each record.\<close>

definition data_to_upload :: "pydict list \<Rightarrow> cell list list" where
  "data_to_upload records =
     (let cols = filter (\<lambda>c. c \<in> set (df_columns records)) col_order
      in map Txt cols # map (\<lambda>r. map (df_cell r) cols) records)"

text \<open>
  The spreadsheet service, as functions of its state \<open>'s\<close> that return the new state or
  raise: authorising and opening the spreadsheet, getting the worksheet, adding it,
  clearing it, and writing rows from cell A1.
\<close>

record 's sink_ops =
  open_by_key :: "'s \<Rightarrow> py_error + 's"
  worksheet :: "'s \<Rightarrow> py_error + 's"
  add_worksheet :: "'s \<Rightarrow> py_error + 's"
  clear :: "'s \<Rightarrow> py_error + 's"
  update :: "'s \<Rightarrow> cell list list \<Rightarrow> py_error + 's"

text \<open>
  \<open>upload_to_google_sheets\<close>: what it raises if anything, the lines it prints, and the
  state of the service.  The outer \<open>except\<close> prints the error and raises it again; the
  inner bare \<open>except\<close> adds the worksheet when getting it raised.
\<close>

definition upload_failed :: "py_error \<Rightarrow> string list \<Rightarrow> 's \<Rightarrow> (py_error + unit) \<times> string list \<times> 's" where
  "upload_failed e printed s = (Inl e, printed @ [''Error uploading to Google Sheets''], s)"

definition upload_to_google_sheets ::
  "'s sink_ops \<Rightarrow> pydict list \<Rightarrow> 's \<Rightarrow> (py_error + unit) \<times> string list \<times> 's" where
  "upload_to_google_sheets sink records s =
     (if records = [] then (Inr (), [''No records to upload''], s)
      else
        let printed = [''Uploading to Google Sheets...''] in
        case open_by_key sink s of
          Inl e \<Rightarrow> upload_failed e printed s
        | Inr s1 \<Rightarrow>
            (case (case worksheet sink s1 of Inr s2 \<Rightarrow> Inr s2 | Inl e \<Rightarrow> add_worksheet sink s1) of
               Inl e \<Rightarrow> upload_failed e printed s1
             | Inr s2 \<Rightarrow>
                 (case clear sink s2 of
                    Inl e \<Rightarrow> upload_failed e printed s2
                  | Inr s3 \<Rightarrow>
                      (case update sink s3 (data_to_upload records) of
                         Inl e \<Rightarrow> upload_failed e printed s3
                       | Inr s4 \<Rightarrow> (Inr (), printed @ [''Successfully uploaded''], s4)))))"

text \<open>
  The end of \<open>main\<close>, after the loop over the dates: the total, the optional JSON dump,
  the upload, and the final line.  \<open>json_dump\<close> stands for \<open>open(args.output, 'w')\<close> and
  \<open>json.dump\<close> on a file system \<open>'f\<close>: it leaves the file system changed and may raise.
  Neither the dump nor the upload stands inside a \<open>try\<close>, so what they raise leaves
  \<open>main\<close> at once: \<open>raised\<close> is the exception that ends the run, if any.
\<close>

record main_args =
  output_arg :: "string option"
  no_upload :: bool

record ('s, 'f) main_result =
  raised :: "py_error option"
  printed :: "string list"
  files :: "'f"
  sink_state :: "'s"

definition main_tail ::
  "'s sink_ops \<Rightarrow> ('f \<Rightarrow> string \<Rightarrow> pydict list \<Rightarrow> py_error option \<times> 'f) \<Rightarrow> main_args
   \<Rightarrow> pydict list \<Rightarrow> 'f \<Rightarrow> 's \<Rightarrow> ('s, 'f) main_result" where
  "main_tail sink json_dump args all_records fs s =
     (let out1 = [''Total records scraped''];
          dumped =
            (case output_arg args of
               None \<Rightarrow> (None, fs, out1)
             | Some path \<Rightarrow>
                 if path = [] then (None, fs, out1)
                 else (case json_dump fs path all_records of
                         (Some e, fs1) \<Rightarrow> (Some e, fs1, out1)
                       | (None, fs1) \<Rightarrow> (None, fs1, out1 @ [''Saved to file''])))
      in case dumped of
           (Some e, fs1, out2) \<Rightarrow>
             \<lparr> raised = Some e, printed = out2, files = fs1, sink_state = s \<rparr>
         | (None, fs1, out2) \<Rightarrow>
             if \<not> no_upload args \<and> all_records \<noteq> [] then
               (case upload_to_google_sheets sink all_records s of
                  (Inl e, out, s') \<Rightarrow>
                    \<lparr> raised = Some e, printed = out2 @ out, files = fs1, sink_state = s' \<rparr>
                | (Inr u, out, s') \<Rightarrow>
                    \<lparr> raised = None, printed = out2 @ out @ [''completed successfully''],
                      files = fs1, sink_state = s' \<rparr>)
             else \<lparr> raised = None, printed = out2 @ [''completed successfully''],
                    files = fs1, sink_state = s \<rparr>)"

section \<open>Version 2: raw-text extraction (\<open>scrape_for_date\<close> of \<open>sarasota_scraper_v2.py\<close>)\<close>

text \<open>
  A record of version 2 is a dictionary with string values.  \<open>datetime.now().isoformat()\<close>
  reads the clock once for each record; \<open>now k\<close> is the text of the reading that follows
  \<open>k\<close> earlier ones.
\<close>

type_synonym v2_record = "(string \<times> string) list"

definition mk_v2_record :: "string \<Rightarrow> string \<Rightarrow> string \<Rightarrow> v2_record" where
  "mk_v2_record date_str text stamp =
     [(''arrest_date'', date_str), (''raw_text'', text), (''scraped_at'', stamp)]"

text \<open>
  What the extraction reads of the search frame once the search has been submitted: for
  each element matching \<open>table tr, .result-row, .inmate-row\<close> its inner text, or \<open>None\<close>
  where reading it raises (the loop's bare \<open>except\<close> skips the row), and the inner text
  of \<open>body\<close>, which may raise.
\<close>

record v2_frame =
  row_texts :: "string option list"
  body_text :: "py_error + string"

fun v2_rows_loop ::
  "string \<Rightarrow> (nat \<Rightarrow> string) \<Rightarrow> string option list \<Rightarrow> v2_record list \<Rightarrow> v2_record list" where
  "v2_rows_loop date_str now [] results = results"
| "v2_rows_loop date_str now (row # rows) results =
     (case row of
        None \<Rightarrow> v2_rows_loop date_str now rows results
      | Some text \<Rightarrow>
          if text \<noteq> [] \<and> length text > 10
          then v2_rows_loop date_str now rows
                 (results @ [mk_v2_record date_str text (now (length results))])
          else v2_rows_loop date_str now rows results)"

fun v2_lines_loop ::
  "string \<Rightarrow> (nat \<Rightarrow> string) \<Rightarrow> string list \<Rightarrow> v2_record list \<Rightarrow> v2_record list" where
  "v2_lines_loop date_str now [] results = results"
| "v2_lines_loop date_str now (line # lines) results =
     (if length line > 20
      then v2_lines_loop date_str now lines
             (results @ [mk_v2_record date_str line (now (length results))])
      else v2_lines_loop date_str now lines results)"

text \<open>Lines 126 to 161: the rows first, and the lines of the body text when no row gave a record.\<close>

definition v2_extract :: "string \<Rightarrow> (nat \<Rightarrow> string) \<Rightarrow> v2_frame \<Rightarrow> py_error + v2_record list" where
  "v2_extract date_str now fr =
     (let results = v2_rows_loop date_str now (row_texts fr) [] in
      if results = [] then
        (case body_text fr of
           Inl e \<Rightarrow> Inl e
         | Inr all_text \<Rightarrow>
             if \<not> py_in ''no results'' (lower all_text) \<and> length all_text > 100
             then let lines = map strip (filter (\<lambda>l. strip l \<noteq> []) (split_on (CHR 0x0A) all_text))
                  in Inr (v2_lines_loop date_str now lines results)
             else Inr results)
      else Inr results)"

text \<open>
  The decorated body.  \<open>search\<close> stands for lines 64 to 123 (loading the page, finding the
  iframe, parsing the date, filling it in and clicking the button): it raises, or leaves
  the frame to extract from.  Every exception is printed and raised again.
\<close>

definition v2_session ::
  "(nat \<Rightarrow> string) \<Rightarrow> (string \<Rightarrow> 'w \<Rightarrow> (py_error + v2_frame) \<times> 'w) \<Rightarrow> string
   \<Rightarrow> (v2_record list, 'w) attempt" where
  "v2_session now search date_str w =
     (case search date_str w of
        (Inl e, w') \<Rightarrow> (Inl e, w')
      | (Inr fr, w') \<Rightarrow> (v2_extract date_str now fr, w'))"

section \<open>Dates of the \<open>datetime\<close> module\<close>

text \<open>
  A \<open>datetime\<close> at midnight is its year, month and day.  The constructor accepts the
  years 1 to 9999, the months 1 to 12 and the days of the month; \<open>valid_date\<close> says so.
\<close>

type_synonym date = "nat \<times> nat \<times> nat"

definition is_leap :: "nat \<Rightarrow> bool" where
  "is_leap y = (y mod 4 = 0 \<and> (y mod 100 \<noteq> 0 \<or> y mod 400 = 0))"

definition days_in_month :: "nat \<Rightarrow> nat \<Rightarrow> nat" where
  "days_in_month y m =
     (if m = 2 then (if is_leap y then 29 else 28)
      else if m = 4 \<or> m = 6 \<or> m = 9 \<or> m = 11 then 30 else 31)"

definition valid_date :: "date \<Rightarrow> bool" where
  "valid_date dt =
     (case dt of (y, m, d) \<Rightarrow>
        1 \<le> y \<and> y \<le> 9999 \<and> 1 \<le> m \<and> m \<le> 12 \<and> 1 \<le> d \<and> d \<le> days_in_month y m)"

text \<open>\<open>int\<close> on a string of decimal digits.\<close>

definition digit_val :: "char \<Rightarrow> nat" where
  "digit_val c = of_char c - 48"

definition nat_of_digits :: "string \<Rightarrow> nat" where
  "nat_of_digits s = foldl (\<lambda>n c. 10 * n + digit_val c) 0 s"

text \<open>
  The fields of \<open>strptime\<close>.  \<open>%m\<close> takes one or two digits that make a number from 1 to
  12; \<open>%d\<close> takes one or two digits that make a number from 1 to 31, or a space and a
  digit from 1 to 9; \<open>%Y\<close> takes exactly four digits.
\<close>

definition month_field :: "string \<Rightarrow> nat option" where
  "month_field s =
     (if (length s = 1 \<or> length s = 2) \<and> list_all is_digit s
         \<and> 1 \<le> nat_of_digits s \<and> nat_of_digits s \<le> 12
      then Some (nat_of_digits s) else None)"

definition day_field :: "string \<Rightarrow> nat option" where
  "day_field s =
     (if (length s = 1 \<or> length s = 2) \<and> list_all is_digit s
         \<and> 1 \<le> nat_of_digits s \<and> nat_of_digits s \<le> 31
      then Some (nat_of_digits s)
      else if length s = 2 \<and> hd s = CHR '' '' \<and> is_digit (last s) \<and> last s \<noteq> CHR ''0''
      then Some (digit_val (last s)) else None)"

definition year_field :: "string \<Rightarrow> nat option" where
  "year_field s = (if length s = 4 \<and> list_all is_digit s then Some (nat_of_digits s) else None)"

definition make_date :: "nat option \<Rightarrow> nat option \<Rightarrow> nat option \<Rightarrow> date option" where
  "make_date yo mo dayo =
     (case yo of None \<Rightarrow> None | Some y \<Rightarrow>
      (case mo of None \<Rightarrow> None | Some m \<Rightarrow>
       (case dayo of None \<Rightarrow> None | Some d \<Rightarrow>
          if valid_date (y, m, d) then Some (y, m, d) else None)))"

text \<open>
  \<open>datetime.strptime(s, "%m/%d/%Y")\<close> and \<open>datetime.strptime(s, "%Y-%m-%d")\<close>: the whole
  string must be the three fields with the separator between them, and the fields must
  make a date; \<open>None\<close> is the \<open>ValueError\<close>.
\<close>

definition strptime_mdy :: "string \<Rightarrow> date option" where
  "strptime_mdy s =
     (case split_on (CHR ''/'') s of
        [ms, ds, ys] \<Rightarrow> make_date (year_field ys) (month_field ms) (day_field ds)
      | _ \<Rightarrow> None)"

definition strptime_ymd :: "string \<Rightarrow> date option" where
  "strptime_ymd s =
     (case split_on (CHR ''-'') s of
        [ys, ms, ds] \<Rightarrow> make_date (year_field ys) (month_field ms) (day_field ds)
      | _ \<Rightarrow> None)"

text \<open>
  \<open>strftime("%Y-%m-%d")\<close>: the year with four digits, the month and the day with two,
  padded with zeros, as the library documents it.
\<close>

definition digit_char :: "nat \<Rightarrow> char" where
  "digit_char k = ''0123456789'' ! (k mod 10)"

definition two_digits :: "nat \<Rightarrow> string" where
  "two_digits n = [digit_char (n div 10), digit_char n]"

definition four_digits :: "nat \<Rightarrow> string" where
  "four_digits n =
     [digit_char (n div 1000), digit_char (n div 100), digit_char (n div 10), digit_char n]"

definition strftime_ymd :: "date \<Rightarrow> string" where
  "strftime_ymd dt =
     (case dt of (y, m, d) \<Rightarrow> four_digits y @ ''-'' @ two_digits m @ ''-'' @ two_digits d)"

section \<open>Date normalizer (\<open>normalize_date\<close> and \<open>daterange\<close>)\<close>

text \<open>The two patterns of \<open>normalize_date\<close>, used with \<open>re.match\<close> and no flag.\<close>

definition iso_rx :: "rx list" where
  "iso_rx =
     [Bol, Cls is_digit 4 (Some 4), Lit ''-'', Cls is_digit 2 (Some 2), Lit ''-'',
      Cls is_digit 2 (Some 2), Eol]"

definition mdy_rx :: "rx list" where
  "mdy_rx =
     [Bol, Cls is_digit 1 (Some 2), Lit ''/'', Cls is_digit 1 (Some 2), Lit ''/'',
      Cls is_digit 4 (Some 4), Eol]"

definition normalize_date :: "string \<Rightarrow> py_error + string" where
  "normalize_date d0 =
     (let d = strip d0 in
      if re_match False iso_rx d \<noteq> None then Inr d
      else if re_match False mdy_rx d \<noteq> None then
        (case strptime_mdy d of None \<Rightarrow> Inl ValueError | Some dt \<Rightarrow> Inr (strftime_ymd dt))
      else Inl ValueError)"



text \<open>
  The comparison \<open>s <= e\<close> of two dates, and \<open>s + timedelta(days=1)\<close>: the day after,
  or \<open>OverflowError\<close> after the last day of the year 9999.
\<close>

definition date_le :: "date \<Rightarrow> date \<Rightarrow> bool" where
  "date_le a b =
     (case a of (y1, m1, d1) \<Rightarrow> case b of (y2, m2, d2) \<Rightarrow>
        y1 < y2 \<or> (y1 = y2 \<and> (m1 < m2 \<or> (m1 = m2 \<and> d1 \<le> d2))))"

definition add_one_day :: "date \<Rightarrow> py_error + date" where
  "add_one_day dt =
     (case dt of (y, m, d) \<Rightarrow>
        if d < days_in_month y m then Inr (y, m, d + 1)
        else if m < 12 then Inr (y, m + 1, 1)
        else if y < 9999 then Inr (y + 1, 1, 1)
        else Inl OverflowError)"

text \<open>
  The generator's \<open>while s <= e\<close> loop: the strings it yields, in order, and the
  exception that ends it, if one does.
\<close>

function daterange_loop :: "date \<Rightarrow> date \<Rightarrow> string list \<times> py_error option" where
  "daterange_loop s e =
     (if date_le s e then
        (case add_one_day s of
           Inl err \<Rightarrow> ([strftime_ymd s], Some err)
         | Inr s' \<Rightarrow> (strftime_ymd s # fst (daterange_loop s' e), snd (daterange_loop s' e)))
      else ([], None))"
  by pat_completeness auto
termination
proof (relation "measures [\<lambda>(s, e). fst e + 1 - fst s, \<lambda>(s, e). 12 - fst (snd s),
                           \<lambda>(s, e). 31 - snd (snd s)]")
  show "wf (measures [\<lambda>(s, e). fst e + 1 - fst s, \<lambda>(s, e). 12 - fst (snd s),
                      \<lambda>(s :: date, e :: date). 31 - snd (snd s)])"
    by simp
next
  fix s e :: date and s' :: date
  assume le: "date_le s e" and nx: "add_one_day s = Inr s'"
  obtain y m d where s: "s = (y, m, d)" by (cases s)
  obtain y2 m2 d2 where e: "e = (y2, m2, d2)" by (cases e)
  have dim: "days_in_month y m \<le> 31" by (simp add: days_in_month_def)
  from le s e have yy: "y \<le> y2" by (auto simp: date_le_def)
  show "((s', e), (s, e)) \<in> measures [\<lambda>(s, e). fst e + 1 - fst s, \<lambda>(s, e). 12 - fst (snd s),
                           \<lambda>(s, e). 31 - snd (snd s)]"
    using nx s e dim yy by (auto simp: add_one_day_def split: if_splits)
  then show "((s', e), (s, e)) \<in> measures [\<lambda>(s, e). fst e + 1 - fst s, \<lambda>(s, e). 12 - fst (snd s),
                           \<lambda>(s, e). 31 - snd (snd s)]" .
qed

text \<open>
  \<open>daterange(start, end)\<close>: both bounds are normalized and parsed before the loop
  begins; a bound that fails ends the generator with \<open>ValueError\<close> before anything is
  yielded.
\<close>

definition daterange :: "string \<Rightarrow> string \<Rightarrow> string list \<times> py_error option" where
  "daterange start stop =
     (case normalize_date start of
        Inl err \<Rightarrow> ([], Some err)
      | Inr ns \<Rightarrow>
          (case strptime_ymd ns of
             None \<Rightarrow> ([], Some ValueError)
           | Some s \<Rightarrow>
               (case normalize_date stop of
                  Inl err \<Rightarrow> ([], Some err)
                | Inr ne \<Rightarrow>
                    (case strptime_ymd ne of
                       None \<Rightarrow> ([], Some ValueError)
                     | Some e \<Rightarrow> daterange_loop s e))))"

text \<open>
  The ordinal of a date, as \<open>date.toordinal\<close> computes it: the days before the year,
  the days before the month, and the day.
\<close>

definition days_before_year :: "nat \<Rightarrow> nat" where
  "days_before_year y = (y - 1) * 365 + (y - 1) div 4 - (y - 1) div 100 + (y - 1) div 400"

definition days_before_month :: "nat \<Rightarrow> nat \<Rightarrow> nat" where
  "days_before_month y m = sum_list (map (days_in_month y) [1..<m])"

definition toordinal :: "date \<Rightarrow> nat" where
  "toordinal dt = (case dt of (y, m, d) \<Rightarrow> days_before_year y + days_before_month y m + d)"

section \<open>Properties of deduplication\<close>

lemma asdict_inj: "asdict r = asdict r' \<Longrightarrow> r = r'"
  by (cases r, cases r') (simp add: asdict_def)






section \<open>Properties of the retry decorator\<close>

lemma wait_exponential_values:
  "wait_exponential 1 1 6 1 = 1" "wait_exponential 1 1 6 2 = 2"
  "wait_exponential 1 1 6 3 = 4" "wait_exponential 1 1 6 4 = 6"
  by (simp_all add: wait_exponential_def)

lemma wait_exponential_bounds:
  "1 \<le> wait_exponential 1 1 6 k \<and> wait_exponential 1 1 6 k \<le> 6"
  by (simp add: wait_exponential_def)

lemma retry_call_success:
  "body w = (Inr v, w') \<Longrightarrow> retry_call m wt body n sl w = (Inr v, n, sl, w')"
  by simp

lemma retry_call_fatal:
  "body w = (Inl e, w') \<Longrightarrow> e \<noteq> PWTimeoutError \<Longrightarrow> retry_call m wt body n sl w = (Inl e, n, sl, w')"
  by simp

lemma retry_call_exhausted:
  "body w = (Inl PWTimeoutError, w') \<Longrightarrow> m \<le> n
   \<Longrightarrow> retry_call m wt body n sl w = (Inl PWTimeoutError, n, sl, w')"
  by simp

lemma retry_call_again:
  "body w = (Inl PWTimeoutError, w') \<Longrightarrow> n < m
   \<Longrightarrow> retry_call m wt body n sl w = retry_call m wt body (Suc n) (sl @ [wt n]) w'"
  by simp

lemma retry_call_final:
  "body w = (r, w') \<Longrightarrow> r \<noteq> Inl PWTimeoutError \<Longrightarrow> retry_call m wt body n sl w = (r, n, sl, w')"
  by (cases r) simp_all

lemma retry_call_last:
  "body w = (r, w') \<Longrightarrow> m \<le> n \<Longrightarrow> retry_call m wt body n sl w = (r, n, sl, w')"
  by (cases r) simp_all

lemma retry_call_attempts:
  "fst (snd (retry_call m wt body n sl w)) \<le> max n m"
proof (induction m wt body n sl w rule: retry_call.induct)
  case (1 m wt body n sl w)
  obtain r w' where b: "body w = (r, w')" by (cases "body w")
  show ?case
  proof (cases "r = Inl PWTimeoutError \<and> n < m")
    case True
    with b have "retry_call m wt body n sl w = retry_call m wt body (Suc n) (sl @ [wt n]) w'"
      by simp
    moreover have "fst (snd (retry_call m wt body (Suc n) (sl @ [wt n]) w')) \<le> max (Suc n) m"
      using "1.IH" b True by auto
    ultimately show ?thesis using True by simp
  next
    case False
    then have "r \<noteq> Inl PWTimeoutError \<or> m \<le> n" by auto
    then have "retry_call m wt body n sl w = (r, n, sl, w')"
      using b retry_call_final [of body w r w' m wt n sl] retry_call_last [of body w r w' m n wt sl]
      by blast
    then show ?thesis by simp
  qed
qed

lemma retry_v1_second:
  assumes "session d w0 = (Inl PWTimeoutError, w1)" and "session d w1 = (r2, w2)"
    and "r2 \<noteq> Inl PWTimeoutError"
  shows "scrape_for_date session d w0 = (r2, 2, [1], w2)"
proof -
  have "retry_call 3 (wait_exponential 1 1 6) (session d) 1 [] w0
      = retry_call 3 (wait_exponential 1 1 6) (session d) 2 [1] w1"
    using assms(1) retry_call_again [of "session d" w0 w1 1 3 "wait_exponential 1 1 6" "[]"]
    by (simp add: wait_exponential_def numeral_2_eq_2 numeral_3_eq_3)
  also have "\<dots> = (r2, 2, [1], w2)"
    using assms(2,3) by (rule retry_call_final)
  finally show ?thesis by (simp add: scrape_for_date_def)
qed

lemma retry_v1_third:
  assumes "session d w0 = (Inl PWTimeoutError, w1)" and "session d w1 = (Inl PWTimeoutError, w2)"
    and "session d w2 = (r3, w3)"
  shows "scrape_for_date session d w0 = (r3, 3, [1, 2], w3)"
proof -
  have "retry_call 3 (wait_exponential 1 1 6) (session d) 1 [] w0
      = retry_call 3 (wait_exponential 1 1 6) (session d) 2 [1] w1"
    using assms(1) retry_call_again [of "session d" w0 w1 1 3 "wait_exponential 1 1 6" "[]"]
    by (simp add: wait_exponential_def numeral_2_eq_2 numeral_3_eq_3)
  also have "\<dots> = retry_call 3 (wait_exponential 1 1 6) (session d) 3 [1, 2] w2"
    using assms(2) retry_call_again [of "session d" w1 w2 2 3 "wait_exponential 1 1 6" "[1]"]
    by (simp add: wait_exponential_def numeral_2_eq_2 numeral_3_eq_3)
  also have "\<dots> = (r3, 3, [1, 2], w3)"
    using assms(3) by (rule retry_call_last) simp
  finally show ?thesis by (simp add: scrape_for_date_def)
qed

lemma retry_v2_second:
  assumes "session d w0 = (Inl PWTimeoutError, w1)" and "session d w1 = (r2, w2)"
  shows "scrape_for_date_v2 session d w0 = (r2, 2, [1], w2)"
proof -
  have "retry_call 2 (wait_exponential 1 1 6) (session d) 1 [] w0
      = retry_call 2 (wait_exponential 1 1 6) (session d) 2 [1] w1"
    using assms(1) retry_call_again [of "session d" w0 w1 1 2 "wait_exponential 1 1 6" "[]"]
    by (simp add: wait_exponential_def numeral_2_eq_2 numeral_3_eq_3)
  also have "\<dots> = (r2, 2, [1], w2)"
    using assms(2) by (rule retry_call_last) simp
  finally show ?thesis by (simp add: scrape_for_date_v2_def)
qed

text \<open>
  Claim C4, as the code has it.  An attempt is followed by another one only when it
  raised the timeout error and the attempts are not used up; whatever else an attempt
  does (it returns, or it raises any other error) ends the call with that outcome at
  once.  In \<open>sarasota_scraper.py\<close> there are at most three attempts: the outcome of the
  third is final, so a session that times out twice and then succeeds returns the
  successful result after exactly three attempts.  In \<open>sarasota_scraper_v2.py\<close> there
  are at most two: the outcome of the second is final, so a session that times out twice
  raises the timeout and no third attempt is made.  The call sleeps 1 s after the first
  attempt and 2 s after the second; no sleep of this decorator exceeds 6 s.
\<close>

theorem retry_timeouts_only:
  "(session d w0 = (r1, w1) \<and> r1 \<noteq> Inl PWTimeoutError
     \<longrightarrow> scrape_for_date session d w0 = (r1, 1, [], w1)
       \<and> scrape_for_date_v2 session d w0 = (r1, 1, [], w1))
   \<and> (session d w0 = (Inl PWTimeoutError, w1) \<and> session d w1 = (r2, w2)
        \<and> r2 \<noteq> Inl PWTimeoutError
     \<longrightarrow> scrape_for_date session d w0 = (r2, 2, [1], w2))
   \<and> (session d w0 = (Inl PWTimeoutError, w1) \<and> session d w1 = (Inl PWTimeoutError, w2)
        \<and> session d w2 = (r3, w3)
     \<longrightarrow> scrape_for_date session d w0 = (r3, 3, [1, 2], w3))
   \<and> (session d w0 = (Inl PWTimeoutError, w1) \<and> session d w1 = (r2, w2)
     \<longrightarrow> scrape_for_date_v2 session d w0 = (r2, 2, [1], w2))
   \<and> fst (snd (scrape_for_date session d w0)) \<le> 3
   \<and> fst (snd (scrape_for_date_v2 session d w0)) \<le> 2
   \<and> wait_exponential 1 1 6 k \<le> 6"
proof (intro conjI impI)
  assume a: "session d w0 = (r1, w1) \<and> r1 \<noteq> Inl PWTimeoutError"
  then show "scrape_for_date session d w0 = (r1, 1, [], w1)"
    by (cases r1) (simp_all add: scrape_for_date_def)
  from a show "scrape_for_date_v2 session d w0 = (r1, 1, [], w1)"
    by (cases r1) (simp_all add: scrape_for_date_v2_def)
next
  assume a: "session d w0 = (Inl PWTimeoutError, w1) \<and> session d w1 = (r2, w2)
        \<and> r2 \<noteq> Inl PWTimeoutError"
  then show "scrape_for_date session d w0 = (r2, 2, [1], w2)"
    using retry_v1_second [of session d w0 w1 r2 w2] by simp
next
  assume a: "session d w0 = (Inl PWTimeoutError, w1) \<and> session d w1 = (Inl PWTimeoutError, w2)
        \<and> session d w2 = (r3, w3)"
  then show "scrape_for_date session d w0 = (r3, 3, [1, 2], w3)"
    using retry_v1_third [of session d w0 w1 w2 r3 w3] by simp
next
  assume a: "session d w0 = (Inl PWTimeoutError, w1) \<and> session d w1 = (r2, w2)"
  then show "scrape_for_date_v2 session d w0 = (r2, 2, [1], w2)"
    using retry_v2_second [of session d w0 w1 r2 w2] by simp
next
  show "fst (snd (scrape_for_date session d w0)) \<le> 3"
    using retry_call_attempts [of 3 "wait_exponential 1 1 6" "session d" 1 "[]" w0]
    by (simp add: scrape_for_date_def)
next
  show "fst (snd (scrape_for_date_v2 session d w0)) \<le> 2"
    using retry_call_attempts [of 2 "wait_exponential 1 1 6" "session d" 1 "[]" w0]
    by (simp add: scrape_for_date_v2_def)
next
  show "wait_exponential 1 1 6 k \<le> 6"
    by (simp add: wait_exponential_def)
qed

theorem retry_timeouts_only_witness:
  "scrape_for_date scripted ''2025-01-01''
       [Inl PWTimeoutError, Inl PWTimeoutError, Inr ''records'']
     = (Inr ''records'', 3, [1, 2], [])
   \<and> scrape_for_date_v2 scripted ''2025-01-01''
       [Inl PWTimeoutError, Inl PWTimeoutError, Inr ''records'']
     = (Inl PWTimeoutError, 2, [1], [Inr ''records''])
   \<and> scrape_for_date scripted ''2025-01-01''
       [Inl PWTimeoutError, Inl ValueError, Inr ''records'']
     = (Inl ValueError, 2, [1], [Inr ''records''])
   \<and> scrape_for_date scripted ''2025-01-01'' [Inl ValueError, Inr ''records'']
     = (Inl ValueError, 1, [], [Inr ''records''])
   \<and> scrape_for_date_v2 scripted ''2025-01-01'' [Inr ''records'', Inl ValueError]
     = (Inr ''records'', 1, [], [Inl ValueError])"
  using
    retry_timeouts_only [where session = scripted and d = "''2025-01-01''"
      and ?w0.0 = "[Inl PWTimeoutError, Inl PWTimeoutError, Inr ''records'']"
      and ?w1.0 = "[Inl PWTimeoutError, Inr ''records'']"
      and ?r2.0 = "Inl PWTimeoutError"
      and ?w2.0 = "[Inr ''records'']" and ?r3.0 = "Inr ''records''" and ?w3.0 = "[]"]
    retry_timeouts_only [where session = scripted and d = "''2025-01-01''"
      and ?w0.0 = "[Inl PWTimeoutError, Inl ValueError, Inr ''records'']"
      and ?w1.0 = "[Inl ValueError, Inr ''records'']"
      and ?r2.0 = "Inl ValueError" and ?w2.0 = "[Inr ''records'']"]
    retry_timeouts_only [where session = scripted and d = "''2025-01-01''"
      and ?w0.0 = "[Inl ValueError, Inr ''records'']" and ?r1.0 = "Inl ValueError"
      and ?w1.0 = "[Inr ''records'']"]
    retry_timeouts_only [where session = scripted and d = "''2025-01-01''"
      and ?w0.0 = "[Inr ''records'', Inl ValueError]" and ?r1.0 = "Inr ''records''"
      and ?w1.0 = "[Inl ValueError]"]
  by (simp add: scripted_def)

text \<open>
  The claim as stated promises the third attempt for every session; the decorator of
  \<open>sarasota_scraper_v2.py\<close> stops after two attempts, so a session that would succeed on
  its third attempt raises the timeout instead.
\<close>

theorem retry_v2_no_third_attempt:
  "scrape_for_date_v2 scripted ''2025-01-01''
       [Inl PWTimeoutError, Inl PWTimeoutError, Inr ''records'']
   = (Inl PWTimeoutError, 2, [1], [Inr ''records''])"
  by (simp add: scrape_for_date_v2_def scripted_def wait_exponential_def)

section \<open>Properties of the batch driver\<close>

lemma batch_loop_outcomes:
  "batch_loop scrape dates acc errs w =
     (acc @ concat (map (\<lambda>(d, r). case r of Inr recs \<Rightarrow> recs | Inl e \<Rightarrow> [])
                    (date_outcomes scrape dates w)),
      errs @ concat (map (\<lambda>(d, r). case r of Inr recs \<Rightarrow> [] | Inl e \<Rightarrow> [(d, e)])
                     (date_outcomes scrape dates w)),
      snd (snd (batch_loop scrape dates acc errs w)))"
proof (induction dates arbitrary: acc errs w)
  case Nil
  show ?case by simp
next
  case (Cons d dates)
  obtain r w' where s: "scrape d w = (r, w')" by (cases "scrape d w")
  show ?case
  proof (cases r)
    case (Inl e)
    with s Cons.IH [of acc "errs @ [(d, e)]" w'] show ?thesis by simp
  next
    case (Inr recs)
    with s Cons.IH [of "acc @ recs" errs w'] show ?thesis by simp
  qed
qed

lemma date_outcomes_dates: "map fst (date_outcomes scrape dates w) = dates"
  by (induction dates arbitrary: w) simp_all

text \<open>
  Claim C5.  The loop attempts every date of the batch, in order, whatever the earlier
  dates did.  The aggregate is the concatenation of the records of the dates that
  returned, in date order; each date that raised (with any error, a non-timeout one
  included) contributes nothing to the aggregate and one logged line.  In a batch of
  three dates whose second raises, the aggregate holds the records of the first and the
  third.
\<close>

theorem batch_isolates_failures:
  "map fst (date_outcomes scrape dates w) = dates
   \<and> fst (batch_loop scrape dates [] [] w)
       = concat (map (\<lambda>(d, r). case r of Inr recs \<Rightarrow> recs | Inl e \<Rightarrow> [])
                  (date_outcomes scrape dates w))
   \<and> fst (snd (batch_loop scrape dates [] [] w))
       = concat (map (\<lambda>(d, r). case r of Inr recs \<Rightarrow> [] | Inl e \<Rightarrow> [(d, e)])
                  (date_outcomes scrape dates w))
   \<and> (scrape d1 w0 = (Inr r1, w1) \<and> scrape d2 w1 = (Inl e, w2) \<and> scrape d3 w2 = (Inr r3, w3)
       \<longrightarrow> batch_loop scrape [d1, d2, d3] [] [] w0 = (r1 @ r3, [(d2, e)], w3))"
proof (intro conjI impI)
  show "map fst (date_outcomes scrape dates w) = dates"
    by (rule date_outcomes_dates)
next
  show "fst (batch_loop scrape dates [] [] w)
       = concat (map (\<lambda>(d, r). case r of Inr recs \<Rightarrow> recs | Inl e \<Rightarrow> [])
                  (date_outcomes scrape dates w))"
    by (subst batch_loop_outcomes) simp
next
  show "fst (snd (batch_loop scrape dates [] [] w))
       = concat (map (\<lambda>(d, r). case r of Inr recs \<Rightarrow> [] | Inl e \<Rightarrow> [(d, e)])
                  (date_outcomes scrape dates w))"
    by (subst batch_loop_outcomes) simp
next
  assume "scrape d1 w0 = (Inr r1, w1) \<and> scrape d2 w1 = (Inl e, w2) \<and> scrape d3 w2 = (Inr r3, w3)"
  then show "batch_loop scrape [d1, d2, d3] [] [] w0 = (r1 @ r3, [(d2, e)], w3)"
    by simp
qed

theorem batch_isolates_failures_witness:
  "batch_loop (decorated (scrape_for_date scripted))
       [''2025-01-01'', ''2025-01-02'', ''2025-01-03'']
       [] []
       [Inr [''first''], Inl (OtherError ''no iframe''), Inr [''third'']]
   = ([''first'', ''third''], [(''2025-01-02'', OtherError ''no iframe'')], [])"
proof -
  let ?s = "decorated (scrape_for_date scripted) :: string \<Rightarrow> (string list, (py_error + string list) list) attempt"
  have 1: "?s ''2025-01-01'' [Inr [''first''], Inl (OtherError ''no iframe''), Inr [''third'']]
      = (Inr [''first''], [Inl (OtherError ''no iframe''), Inr [''third'']])"
    by (simp add: decorated_def scrape_for_date_def scripted_def)
  have 2: "?s ''2025-01-02'' [Inl (OtherError ''no iframe''), Inr [''third'']]
      = (Inl (OtherError ''no iframe''), [Inr [''third'']])"
    by (simp add: decorated_def scrape_for_date_def scripted_def)
  have 3: "?s ''2025-01-03'' [Inr [''third'']] = (Inr [''third''], [])"
    by (simp add: decorated_def scrape_for_date_def scripted_def)
  show ?thesis
    using 1 2 3
      batch_isolates_failures [of ?s "[]" "[]" "''2025-01-01''"
        "[Inr [''first''], Inl (OtherError ''no iframe''), Inr [''third'']]" "[''first'']"
        "[Inl (OtherError ''no iframe''), Inr [''third'']]" "''2025-01-02''"
        "OtherError ''no iframe''" "[Inr [''third'']]" "''2025-01-03''" "[''third'']" "[]"]
    by simp
qed

section \<open>Properties of the table strategy\<close>

text \<open>
  Claim C6, as the code has it.  The table with header row Name, Arrest Date, Booking #
  and the single body row Jane Doe, 01/02/2025, B12345 yields exactly one record, with
  that name, arrest date and booking number; the fields \<open>dob\<close>, \<open>age\<close>, \<open>charges\<close>,
  \<open>agency\<close>, \<open>bond\<close> and \<open>arrest_time\<close> are \<open>None\<close>, and \<open>source_url\<close> is the entry
  URL, the default of the dataclass.
\<close>

theorem table_example_record:
  "extract_rows_from_table
     \<lparr> thead_cells = [''Name'', ''Arrest Date'', ''Booking #''],
       tbody_rows = [[''Jane Doe'', ''01/02/2025'', ''B12345'']] \<rparr>
   = [\<lparr> arrest_date = Some ''01/02/2025'', name = Some ''Jane Doe'', dob = None, age = None,
        charges = None, agency = None, booking_number = Some ''B12345'', bond = None,
        arrest_time = None,
        source_url = Some ''https://www.sarasotasheriff.org/arrest-reports/index.php'' \<rparr>]"
  by code_simp

text \<open>
  The claim as stated asks for \<open>source_url\<close> to be null as well; the record of the same
  table has the entry URL there.
\<close>

theorem table_example_source_url_not_null:
  "map source_url
     (extract_rows_from_table
        \<lparr> thead_cells = [''Name'', ''Arrest Date'', ''Booking #''],
          tbody_rows = [[''Jane Doe'', ''01/02/2025'', ''B12345'']] \<rparr>)
   \<noteq> [None]"
  by (simp add: extract_rows_from_table_def mk_ArrestRow_def Let_def)

section \<open>Properties of the matcher\<close>



















section \<open>Properties of the card strategy\<close>

















section \<open>Properties of pagination\<close>

lemma paginate_returns_unclicked_round:
  assumes ret: "paginate ops p = Some q"
  shows "\<exists>n. \<not> fst (click_first_enabled ops next_buttons (after_rounds ops n p))"
proof (rule paginate.raw_induct
    [where P = "\<lambda>ops p q. \<exists>n. \<not> fst (click_first_enabled ops next_buttons (after_rounds ops n p))",
     OF _ ret])
  fix pag :: "'a page_ops \<Rightarrow> 'a \<Rightarrow> 'a option" and ops p q
  assume IH: "\<And>ops p y. pag ops p = Some y
      \<Longrightarrow> \<exists>n. \<not> fst (click_first_enabled ops next_buttons (after_rounds ops n p))"
  assume step: "(let r = click_first_enabled ops next_buttons p
      in if fst r then pag ops (snd r) else Some (snd r)) = Some q"
  show "\<exists>n. \<not> fst (click_first_enabled ops next_buttons (after_rounds ops n p))"
  proof (cases "fst (click_first_enabled ops next_buttons p)")
    case False
    then have "\<not> fst (click_first_enabled ops next_buttons (after_rounds ops 0 p))" by simp
    then show ?thesis by blast
  next
    case True
    with step have "pag ops (snd (click_first_enabled ops next_buttons p)) = Some q"
      by (simp add: Let_def)
    then obtain n where
      "\<not> fst (click_first_enabled ops next_buttons
              (after_rounds ops n (snd (click_first_enabled ops next_buttons p))))"
      using IH by blast
    then have "\<not> fst (click_first_enabled ops next_buttons (after_rounds ops (Suc n) p))"
      by simp
    then show ?thesis by blast
  qed
qed

lemma paginate_never_returns:
  "(\<And>n. fst (click_first_enabled ops next_buttons (after_rounds ops n p)))
   \<Longrightarrow> paginate ops p = None"
proof (cases "paginate ops p")
  case None
  then show ?thesis .
next
  case (Some q)
  assume a: "\<And>n. fst (click_first_enabled ops next_buttons (after_rounds ops n p))"
  from Some paginate_returns_unclicked_round [of ops p q] a show ?thesis by blast
qed

lemma paginate_stops_at_unclicked_round:
  "\<not> fst (click_first_enabled ops next_buttons (after_rounds ops n p))
   \<Longrightarrow> (\<And>k. k < n \<Longrightarrow> fst (click_first_enabled ops next_buttons (after_rounds ops k p)))
   \<Longrightarrow> paginate ops p = Some (snd (click_first_enabled ops next_buttons (after_rounds ops n p)))"
proof (induction n arbitrary: p)
  case 0
  then show ?case by (subst paginate.simps) (simp add: Let_def)
next
  case (Suc n)
  let ?p' = "snd (click_first_enabled ops next_buttons p)"
  have c: "fst (click_first_enabled ops next_buttons p)"
    using Suc.prems(2) [of 0] by simp
  have "paginate ops ?p' = Some (snd (click_first_enabled ops next_buttons (after_rounds ops n ?p')))"
  proof (rule Suc.IH)
    show "\<not> fst (click_first_enabled ops next_buttons (after_rounds ops n ?p'))"
      using Suc.prems(1) by simp
  next
    fix k assume "k < n"
    then show "fst (click_first_enabled ops next_buttons (after_rounds ops k ?p'))"
      using Suc.prems(2) [of "Suc k"] by simp
  qed
  with c show ?case by (subst paginate.simps) (simp add: Let_def)
qed

lemma click_first_candidate:
  "loc_count ops p sel > 0 \<Longrightarrow> first_is_enabled ops p sel \<Longrightarrow> fst (first_click ops p sel)
   \<Longrightarrow> fst (click_first_enabled ops (sel # sels) p)"
  by (cases "first_click ops p sel") simp

text \<open>
  Claim C8, as the code has it.  Neither \<open>paginate\<close> nor its caller bounds the number of
  pages.  \<open>paginate\<close> returns exactly at the first round in which no candidate is present,
  enabled and clicked without error, with the page of that round.  On a page where every
  round clicks a candidate, in particular where the first candidate is present, enabled
  and clickable in every page state, \<open>paginate\<close> never returns, and neither does the
  session step that waits, paginates and extracts.
\<close>

theorem paginate_unbounded:
  "((\<forall>n. fst (click_first_enabled ops next_buttons (after_rounds ops n p)))
      \<longrightarrow> paginate ops p = None)
   \<and> ((\<forall>q. loc_count ops q (hd next_buttons) > 0 \<and> first_is_enabled ops q (hd next_buttons)
            \<and> fst (first_click ops q (hd next_buttons)))
      \<longrightarrow> paginate ops p = None \<and> paginate_then_extract ops try_extract_rows p = None)
   \<and> (\<not> fst (click_first_enabled ops next_buttons (after_rounds ops n p))
        \<and> (\<forall>k<n. fst (click_first_enabled ops next_buttons (after_rounds ops k p)))
      \<longrightarrow> paginate ops p
          = Some (snd (click_first_enabled ops next_buttons (after_rounds ops n p))))"
proof (intro conjI impI)
  assume "\<forall>n. fst (click_first_enabled ops next_buttons (after_rounds ops n p))"
  then show "paginate ops p = None"
    by (simp add: paginate_never_returns)
next
  assume a: "\<forall>q. loc_count ops q (hd next_buttons) > 0 \<and> first_is_enabled ops q (hd next_buttons)
            \<and> fst (first_click ops q (hd next_buttons))"
  have "fst (click_first_enabled ops next_buttons q)" for q
    using a click_first_candidate [of ops q "hd next_buttons" "tl next_buttons"]
    by (simp add: next_buttons_def)
  then have "paginate ops q = None" for q
    by (simp add: paginate_never_returns)
  then show "paginate ops p = None"
    and "paginate_then_extract ops try_extract_rows p = None"
    by (simp_all add: paginate_then_extract_def)
next
  assume "\<not> fst (click_first_enabled ops next_buttons (after_rounds ops n p))
        \<and> (\<forall>k<n. fst (click_first_enabled ops next_buttons (after_rounds ops k p)))"
  then show "paginate ops p
          = Some (snd (click_first_enabled ops next_buttons (after_rounds ops n p)))"
    by (simp add: paginate_stops_at_unclicked_round)
qed

theorem paginate_unbounded_witness:
  "paginate \<lparr> loc_count = (\<lambda>p sel. Suc 0), first_is_enabled = (\<lambda>p sel. p < 2),
              first_click = (\<lambda>p sel. (True, Suc p)), wait_for_timeout = (\<lambda>p ms. p) \<rparr> (0::nat)
     = Some 2
   \<and> paginate \<lparr> loc_count = (\<lambda>p sel. Suc 0), first_is_enabled = (\<lambda>p sel. True),
              first_click = (\<lambda>p sel. (True, Suc p)), wait_for_timeout = (\<lambda>p ms. p) \<rparr> (0::nat)
     = None"
proof
  let ?ops = "\<lparr> loc_count = (\<lambda>(p::nat) (sel::string). Suc 0), first_is_enabled = (\<lambda>p sel. p < 2),
              first_click = (\<lambda>p sel. (True, Suc p)), wait_for_timeout = (\<lambda>p (ms::nat). p) \<rparr>"
  have r: "click_first_enabled ?ops next_buttons q = (if q < 2 then (True, Suc q) else (False, q))" for q
    by (simp add: next_buttons_def)
  have "\<not> fst (click_first_enabled ?ops next_buttons (after_rounds ?ops (Suc (Suc 0)) 0))
        \<and> (\<forall>k<Suc (Suc 0). fst (click_first_enabled ?ops next_buttons (after_rounds ?ops k 0)))"
    by (simp add: r less_Suc_eq)
  with paginate_unbounded [where ops = ?ops and p = 0 and n = "Suc (Suc 0)"]
  have "paginate ?ops 0
      = Some (snd (click_first_enabled ?ops next_buttons (after_rounds ?ops (Suc (Suc 0)) 0)))"
    by blast
  then show "paginate ?ops 0 = Some 2"
    by (simp add: r)
next
  let ?ops = "\<lparr> loc_count = (\<lambda>(p::nat) (sel::string). Suc 0), first_is_enabled = (\<lambda>p sel. True),
              first_click = (\<lambda>p sel. (True, Suc p)), wait_for_timeout = (\<lambda>p (ms::nat). p) \<rparr>"
  have "\<forall>q. loc_count ?ops q (hd next_buttons) > 0 \<and> first_is_enabled ?ops q (hd next_buttons)
            \<and> fst (first_click ?ops q (hd next_buttons))"
    by simp
  with paginate_unbounded [where ops = ?ops and p = 0] show "paginate ?ops 0 = None"
    by blast
qed

text \<open>
  The claim as stated promises termination on a page whose Next control stays present
  and enabled; on such a page, whose every click succeeds, the session step never returns.
\<close>

theorem paginate_endless_page_never_returns:
  "paginate_then_extract
     \<lparr> loc_count = (\<lambda>p sel. Suc 0), first_is_enabled = (\<lambda>p sel. True),
       first_click = (\<lambda>p sel. (True, Suc p)), wait_for_timeout = (\<lambda>p ms. p) \<rparr>
     (\<lambda>p. p) (0::nat)
   = None"
proof -
  let ?ops = "\<lparr> loc_count = (\<lambda>(p::nat) (sel::string). Suc 0), first_is_enabled = (\<lambda>p sel. True),
              first_click = (\<lambda>p sel. (True, Suc p)), wait_for_timeout = (\<lambda>p (ms::nat). p) \<rparr>"
  have "fst (click_first_enabled ?ops next_buttons q)" for q
    by (simp add: next_buttons_def)
  then have "paginate ?ops 0 = None"
    by (simp add: paginate_never_returns)
  then show ?thesis
    by (simp add: paginate_then_extract_def)
qed

section \<open>Properties of the sink upload\<close>

lemma df_columns_set: "set (df_columns records) = (\<Union>r \<in> set records. fst ` set r)"
  by (auto simp: df_columns_def)

lemma data_to_upload_rows:
  "data_to_upload records
     = map Txt (filter (\<lambda>c. \<exists>r \<in> set records. c \<in> fst ` set r) col_order)
       # map (\<lambda>r. map (df_cell r) (filter (\<lambda>c. \<exists>r \<in> set records. c \<in> fst ` set r) col_order))
           records"
  by (simp add: data_to_upload_def Let_def df_columns_set)

lemma df_columns_asdict: "rows \<noteq> [] \<Longrightarrow> set (df_columns (map asdict rows)) = set col_order"
  by (cases rows) (auto simp: df_columns_set asdict_def col_order_def)

lemma header_asdict:
  "rows \<noteq> [] \<Longrightarrow> hd (data_to_upload (map asdict rows)) = map Txt col_order"
  by (simp add: data_to_upload_def Let_def df_columns_asdict)

lemma upload_writes:
  assumes "records \<noteq> []" and "open_by_key sink s = Inr s1"
    and "worksheet sink s1 = Inr s2 \<or> (worksheet sink s1 = Inl e0 \<and> add_worksheet sink s1 = Inr s2)"
    and "clear sink s2 = Inr s3"
    and "update sink s3 (data_to_upload records) = Inr s4"
  shows "upload_to_google_sheets sink records s
     = (Inr (), [''Uploading to Google Sheets...'', ''Successfully uploaded''], s4)"
  using assms by (auto simp: upload_to_google_sheets_def Let_def)

lemma upload_open_fails:
  assumes "records \<noteq> []" and "open_by_key sink s = Inl e"
  shows "upload_to_google_sheets sink records s
     = (Inl e, [''Uploading to Google Sheets...'', ''Error uploading to Google Sheets''], s)"
  using assms by (simp add: upload_to_google_sheets_def upload_failed_def Let_def)

lemma upload_add_worksheet_fails:
  assumes "records \<noteq> []" and "open_by_key sink s = Inr s1"
    and "worksheet sink s1 = Inl e0" and "add_worksheet sink s1 = Inl e"
  shows "upload_to_google_sheets sink records s
     = (Inl e, [''Uploading to Google Sheets...'', ''Error uploading to Google Sheets''], s1)"
  using assms by (simp add: upload_to_google_sheets_def upload_failed_def Let_def)

lemma upload_clear_fails:
  assumes "records \<noteq> []" and "open_by_key sink s = Inr s1"
    and "worksheet sink s1 = Inr s2 \<or> (worksheet sink s1 = Inl e0 \<and> add_worksheet sink s1 = Inr s2)"
    and "clear sink s2 = Inl e"
  shows "upload_to_google_sheets sink records s
     = (Inl e, [''Uploading to Google Sheets...'', ''Error uploading to Google Sheets''], s2)"
  using assms by (auto simp: upload_to_google_sheets_def upload_failed_def Let_def)

lemma upload_update_fails:
  assumes "records \<noteq> []" and "open_by_key sink s = Inr s1"
    and "worksheet sink s1 = Inr s2 \<or> (worksheet sink s1 = Inl e0 \<and> add_worksheet sink s1 = Inr s2)"
    and "clear sink s2 = Inr s3"
    and "update sink s3 (data_to_upload records) = Inl e"
  shows "upload_to_google_sheets sink records s
     = (Inl e, [''Uploading to Google Sheets...'', ''Error uploading to Google Sheets''], s3)"
  using assms by (auto simp: upload_to_google_sheets_def upload_failed_def Let_def)

lemma main_tail_dump_then_upload:
  assumes "output_arg args = Some path" and "path \<noteq> []"
    and "json_dump fs path all_records = (None, fs1)"
    and "\<not> no_upload args" and "all_records \<noteq> []"
    and "upload_to_google_sheets sink all_records s = (r, out, s')"
  shows "main_tail sink json_dump args all_records fs s
     = \<lparr> raised = (case r of Inl e \<Rightarrow> Some e | Inr u \<Rightarrow> None),
         printed = [''Total records scraped'', ''Saved to file''] @ out
                   @ (case r of Inl e \<Rightarrow> [] | Inr u \<Rightarrow> [''completed successfully'']),
         files = fs1, sink_state = s' \<rparr>"
  using assms by (cases r) (simp_all add: main_tail_def Let_def)

lemma main_tail_upload_only:
  assumes "output_arg args = None \<or> output_arg args = Some []"
    and "\<not> no_upload args" and "all_records \<noteq> []"
    and "upload_to_google_sheets sink all_records s = (r, out, s')"
  shows "main_tail sink json_dump args all_records fs s
     = \<lparr> raised = (case r of Inl e \<Rightarrow> Some e | Inr u \<Rightarrow> None),
         printed = [''Total records scraped''] @ out
                   @ (case r of Inl e \<Rightarrow> [] | Inr u \<Rightarrow> [''completed successfully'']),
         files = fs, sink_state = s' \<rparr>"
  using assms by (cases r) (auto simp: main_tail_def Let_def)

lemma main_tail_dump_raises:
  assumes "output_arg args = Some path" and "path \<noteq> []"
    and "json_dump fs path all_records = (Some e, fs1)"
  shows "main_tail sink json_dump args all_records fs s
     = \<lparr> raised = Some e, printed = [''Total records scraped''], files = fs1, sink_state = s \<rparr>"
  using assms by (simp add: main_tail_def Let_def)

lemma main_tail_dump_no_upload:
  assumes "output_arg args = Some path" and "path \<noteq> []"
    and "json_dump fs path all_records = (None, fs1)"
    and "no_upload args \<or> all_records = []"
  shows "main_tail sink json_dump args all_records fs s
     = \<lparr> raised = None,
         printed = [''Total records scraped'', ''Saved to file'', ''completed successfully''],
         files = fs1, sink_state = s \<rparr>"
  using assms by (auto simp: main_tail_def Let_def)

lemma main_tail_nothing:
  assumes "output_arg args = None \<or> output_arg args = Some []"
    and "no_upload args \<or> all_records = []"
  shows "main_tail sink json_dump args all_records fs s
     = \<lparr> raised = None,
         printed = [''Total records scraped'', ''completed successfully''],
         files = fs, sink_state = s \<rparr>"
  using assms by (auto simp: main_tail_def Let_def)

text \<open>
  Claim C9, as the code has it.  The upload opens the spreadsheet, gets the worksheet
  (adding it when getting it raises), clears it and writes, from cell A1, the header row
  followed by one row for each record.  The header row is the fixed column order
  (arrest_date, name, dob, age, booking_number, agency, bond, arrest_time, charges,
  source_url) restricted to the keys that occur in some record; for records made from
  \<open>ArrestRow\<close> it is the whole order.  When opening, adding the worksheet, clearing or
  writing raises, the upload prints the error and raises it again.  \<open>main\<close> writes the
  JSON dump first, when an output path is given, and attempts the upload after it; it
  catches neither: what the dump raises ends the run before any upload, and what the
  upload raises ends the run with that error, without the final line, the file system
  being as the dump left it.
\<close>

theorem sink_header_and_failure:
  "col_order = [''arrest_date'', ''name'', ''dob'', ''age'', ''booking_number'',
                ''agency'', ''bond'', ''arrest_time'', ''charges'', ''source_url'']
   \<and> data_to_upload records
       = map Txt (filter (\<lambda>c. \<exists>r \<in> set records. c \<in> fst ` set r) col_order)
         # map (\<lambda>r. map (df_cell r) (filter (\<lambda>c. \<exists>r \<in> set records. c \<in> fst ` set r) col_order))
             records
   \<and> (rows \<noteq> [] \<longrightarrow> hd (data_to_upload (map asdict rows)) = map Txt col_order)
   \<and> (records \<noteq> [] \<and> open_by_key sink s = Inr s1
        \<and> (worksheet sink s1 = Inr s2
            \<or> (worksheet sink s1 = Inl e0 \<and> add_worksheet sink s1 = Inr s2))
        \<and> clear sink s2 = Inr s3 \<and> update sink s3 (data_to_upload records) = Inr s4
      \<longrightarrow> upload_to_google_sheets sink records s
          = (Inr (), [''Uploading to Google Sheets...'', ''Successfully uploaded''], s4))
   \<and> (records \<noteq> [] \<and> open_by_key sink s = Inl e
      \<longrightarrow> upload_to_google_sheets sink records s
          = (Inl e, [''Uploading to Google Sheets...'', ''Error uploading to Google Sheets''], s))
   \<and> (records \<noteq> [] \<and> open_by_key sink s = Inr s1
        \<and> worksheet sink s1 = Inl e0 \<and> add_worksheet sink s1 = Inl e
      \<longrightarrow> upload_to_google_sheets sink records s
          = (Inl e, [''Uploading to Google Sheets...'', ''Error uploading to Google Sheets''], s1))
   \<and> (records \<noteq> [] \<and> open_by_key sink s = Inr s1
        \<and> (worksheet sink s1 = Inr s2
            \<or> (worksheet sink s1 = Inl e0 \<and> add_worksheet sink s1 = Inr s2))
        \<and> clear sink s2 = Inl e
      \<longrightarrow> upload_to_google_sheets sink records s
          = (Inl e, [''Uploading to Google Sheets...'', ''Error uploading to Google Sheets''], s2))
   \<and> (records \<noteq> [] \<and> open_by_key sink s = Inr s1
        \<and> (worksheet sink s1 = Inr s2
            \<or> (worksheet sink s1 = Inl e0 \<and> add_worksheet sink s1 = Inr s2))
        \<and> clear sink s2 = Inr s3 \<and> update sink s3 (data_to_upload records) = Inl e
      \<longrightarrow> upload_to_google_sheets sink records s
          = (Inl e, [''Uploading to Google Sheets...'', ''Error uploading to Google Sheets''], s3))
   \<and> (output_arg args = Some path \<and> path \<noteq> [] \<and> json_dump fs path records = (None, fs1)
        \<and> \<not> no_upload args \<and> records \<noteq> []
        \<and> upload_to_google_sheets sink records s = (r, out, s')
      \<longrightarrow> main_tail sink json_dump args records fs s
          = \<lparr> raised = (case r of Inl e \<Rightarrow> Some e | Inr u \<Rightarrow> None),
              printed = [''Total records scraped'', ''Saved to file''] @ out
                        @ (case r of Inl e \<Rightarrow> [] | Inr u \<Rightarrow> [''completed successfully'']),
              files = fs1, sink_state = s' \<rparr>)
   \<and> ((output_arg args = None \<or> output_arg args = Some [])
        \<and> \<not> no_upload args \<and> records \<noteq> []
        \<and> upload_to_google_sheets sink records s = (r, out, s')
      \<longrightarrow> main_tail sink json_dump args records fs s
          = \<lparr> raised = (case r of Inl e \<Rightarrow> Some e | Inr u \<Rightarrow> None),
              printed = [''Total records scraped''] @ out
                        @ (case r of Inl e \<Rightarrow> [] | Inr u \<Rightarrow> [''completed successfully'']),
              files = fs, sink_state = s' \<rparr>)
   \<and> (output_arg args = Some path \<and> path \<noteq> [] \<and> json_dump fs path records = (Some e, fs1)
      \<longrightarrow> main_tail sink json_dump args records fs s
          = \<lparr> raised = Some e, printed = [''Total records scraped''], files = fs1,
              sink_state = s \<rparr>)
   \<and> (output_arg args = Some path \<and> path \<noteq> [] \<and> json_dump fs path records = (None, fs1)
        \<and> (no_upload args \<or> records = [])
      \<longrightarrow> main_tail sink json_dump args records fs s
          = \<lparr> raised = None,
              printed = [''Total records scraped'', ''Saved to file'', ''completed successfully''],
              files = fs1, sink_state = s \<rparr>)
   \<and> ((output_arg args = None \<or> output_arg args = Some [])
        \<and> (no_upload args \<or> records = [])
      \<longrightarrow> main_tail sink json_dump args records fs s
          = \<lparr> raised = None,
              printed = [''Total records scraped'', ''completed successfully''],
              files = fs, sink_state = s \<rparr>)"
proof (intro conjI impI)
  show "col_order = [''arrest_date'', ''name'', ''dob'', ''age'', ''booking_number'',
                ''agency'', ''bond'', ''arrest_time'', ''charges'', ''source_url'']"
    by (simp add: col_order_def)
  show "data_to_upload records
       = map Txt (filter (\<lambda>c. \<exists>r \<in> set records. c \<in> fst ` set r) col_order)
         # map (\<lambda>r. map (df_cell r) (filter (\<lambda>c. \<exists>r \<in> set records. c \<in> fst ` set r) col_order))
             records"
    by (rule data_to_upload_rows)
  show "rows \<noteq> [] \<Longrightarrow> hd (data_to_upload (map asdict rows)) = map Txt col_order"
    by (rule header_asdict)
  show "records \<noteq> [] \<and> open_by_key sink s = Inr s1
        \<and> (worksheet sink s1 = Inr s2
            \<or> (worksheet sink s1 = Inl e0 \<and> add_worksheet sink s1 = Inr s2))
        \<and> clear sink s2 = Inr s3 \<and> update sink s3 (data_to_upload records) = Inr s4
      \<Longrightarrow> upload_to_google_sheets sink records s
          = (Inr (), [''Uploading to Google Sheets...'', ''Successfully uploaded''], s4)"
    using upload_writes [of records sink s s1 s2 e0 s3 s4] by blast
  show "records \<noteq> [] \<and> open_by_key sink s = Inl e
      \<Longrightarrow> upload_to_google_sheets sink records s
          = (Inl e, [''Uploading to Google Sheets...'', ''Error uploading to Google Sheets''], s)"
    using upload_open_fails [of records sink s e] by blast
  show "records \<noteq> [] \<and> open_by_key sink s = Inr s1
        \<and> worksheet sink s1 = Inl e0 \<and> add_worksheet sink s1 = Inl e
      \<Longrightarrow> upload_to_google_sheets sink records s
          = (Inl e, [''Uploading to Google Sheets...'', ''Error uploading to Google Sheets''], s1)"
    using upload_add_worksheet_fails [of records sink s s1 e0 e] by blast
  show "records \<noteq> [] \<and> open_by_key sink s = Inr s1
        \<and> (worksheet sink s1 = Inr s2
            \<or> (worksheet sink s1 = Inl e0 \<and> add_worksheet sink s1 = Inr s2))
        \<and> clear sink s2 = Inl e
      \<Longrightarrow> upload_to_google_sheets sink records s
          = (Inl e, [''Uploading to Google Sheets...'', ''Error uploading to Google Sheets''], s2)"
    using upload_clear_fails [of records sink s s1 s2 e0 e] by blast
  show "records \<noteq> [] \<and> open_by_key sink s = Inr s1
        \<and> (worksheet sink s1 = Inr s2
            \<or> (worksheet sink s1 = Inl e0 \<and> add_worksheet sink s1 = Inr s2))
        \<and> clear sink s2 = Inr s3 \<and> update sink s3 (data_to_upload records) = Inl e
      \<Longrightarrow> upload_to_google_sheets sink records s
          = (Inl e, [''Uploading to Google Sheets...'', ''Error uploading to Google Sheets''], s3)"
    using upload_update_fails [of records sink s s1 s2 e0 s3 e] by blast
  show "output_arg args = Some path \<and> path \<noteq> [] \<and> json_dump fs path records = (None, fs1)
        \<and> \<not> no_upload args \<and> records \<noteq> []
        \<and> upload_to_google_sheets sink records s = (r, out, s')
      \<Longrightarrow> main_tail sink json_dump args records fs s
          = \<lparr> raised = (case r of Inl e \<Rightarrow> Some e | Inr u \<Rightarrow> None),
              printed = [''Total records scraped'', ''Saved to file''] @ out
                        @ (case r of Inl e \<Rightarrow> [] | Inr u \<Rightarrow> [''completed successfully'']),
              files = fs1, sink_state = s' \<rparr>"
    using main_tail_dump_then_upload [of args path json_dump fs records fs1 sink s r out s']
    by blast
  show "(output_arg args = None \<or> output_arg args = Some [])
        \<and> \<not> no_upload args \<and> records \<noteq> []
        \<and> upload_to_google_sheets sink records s = (r, out, s')
      \<Longrightarrow> main_tail sink json_dump args records fs s
          = \<lparr> raised = (case r of Inl e \<Rightarrow> Some e | Inr u \<Rightarrow> None),
              printed = [''Total records scraped''] @ out
                        @ (case r of Inl e \<Rightarrow> [] | Inr u \<Rightarrow> [''completed successfully'']),
              files = fs, sink_state = s' \<rparr>"
    using main_tail_upload_only [of args records sink s r out s' json_dump fs] by blast
  show "output_arg args = Some path \<and> path \<noteq> [] \<and> json_dump fs path records = (Some e, fs1)
      \<Longrightarrow> main_tail sink json_dump args records fs s
          = \<lparr> raised = Some e, printed = [''Total records scraped''], files = fs1,
              sink_state = s \<rparr>"
    using main_tail_dump_raises [of args path json_dump fs records e fs1 sink s] by blast
  show "output_arg args = Some path \<and> path \<noteq> [] \<and> json_dump fs path records = (None, fs1)
        \<and> (no_upload args \<or> records = [])
      \<Longrightarrow> main_tail sink json_dump args records fs s
          = \<lparr> raised = None,
              printed = [''Total records scraped'', ''Saved to file'', ''completed successfully''],
              files = fs1, sink_state = s \<rparr>"
    using main_tail_dump_no_upload [of args path json_dump fs records fs1 sink s] by blast
  show "(output_arg args = None \<or> output_arg args = Some [])
        \<and> (no_upload args \<or> records = [])
      \<Longrightarrow> main_tail sink json_dump args records fs s
          = \<lparr> raised = None,
              printed = [''Total records scraped'', ''completed successfully''],
              files = fs, sink_state = s \<rparr>"
    using main_tail_nothing [of args records sink json_dump fs s] by blast
qed

theorem sink_header_and_failure_witness:
  "main_tail
       \<lparr> open_by_key = Inr, worksheet = Inr, add_worksheet = Inr, clear = Inr,
         update = (\<lambda>s d. Inl (OtherError ''APIError'')) \<rparr>
       (\<lambda>fs path recs. (None, fs(path \<mapsto> recs)))
       \<lparr> output_arg = Some ''out.json'', no_upload = False \<rparr>
       [asdict (mk_ArrestRow None (Some ''Jane Doe'') None None None None None None)]
       Map.empty (0::nat)
     = \<lparr> raised = Some (OtherError ''APIError''),
         printed = [''Total records scraped'', ''Saved to file'',
                    ''Uploading to Google Sheets...'', ''Error uploading to Google Sheets''],
         files = [''out.json'' \<mapsto>
                    [asdict (mk_ArrestRow None (Some ''Jane Doe'') None None None None None None)]],
         sink_state = 0 \<rparr>
   \<and> hd (data_to_upload [asdict (mk_ArrestRow None (Some ''Jane Doe'') None None None None None None)])
     = map Txt col_order"
proof -
  let ?sink = "\<lparr> open_by_key = Inr, worksheet = Inr, add_worksheet = Inr, clear = Inr,
         update = (\<lambda>(s::nat) (d::cell list list). Inl (OtherError ''APIError'') :: py_error + nat) \<rparr>"
  let ?dump = "\<lambda>(fs :: string \<Rightarrow> pydict list option) path recs.
         (None :: py_error option, fs(path \<mapsto> recs))"
  let ?args = "\<lparr> output_arg = Some ''out.json'', no_upload = False \<rparr>"
  let ?row = "mk_ArrestRow None (Some ''Jane Doe'') None None None None None None"
  let ?out = "[''Uploading to Google Sheets...'', ''Error uploading to Google Sheets'']"
  note T = sink_header_and_failure [where records = "[asdict ?row]" and rows = "[?row]"
      and sink = ?sink and s = 0 and ?s1.0 = 0 and ?s2.0 = 0 and ?s3.0 = 0
      and e = "OtherError ''APIError''" and args = ?args and path = "''out.json''"
      and json_dump = ?dump and fs = Map.empty
      and ?fs1.0 = "[''out.json'' \<mapsto> [asdict ?row]]"
      and r = "Inl (OtherError ''APIError'')" and out = ?out and s' = 0]
  have up: "upload_to_google_sheets ?sink [asdict ?row] 0 = (Inl (OtherError ''APIError''), ?out, 0)"
    using T by simp
  have m: "main_tail ?sink ?dump ?args [asdict ?row] Map.empty 0
     = \<lparr> raised = Some (OtherError ''APIError''),
         printed = [''Total records scraped'', ''Saved to file''] @ ?out,
         files = [''out.json'' \<mapsto> [asdict ?row]], sink_state = 0 \<rparr>"
    using T up by simp
  have h: "hd (data_to_upload [asdict ?row]) = map Txt col_order"
    using conjunct1 [OF conjunct2 [OF conjunct2 [OF T]]] by simp
  from m h show ?thesis by simp
qed

text \<open>
  The claim as stated has the run survive a failing sink; with an upload whose write
  raises, \<open>main\<close> ends with the error, here without any file dump of the aggregate.
\<close>

theorem sink_failure_ends_run:
  "raised (main_tail
       \<lparr> open_by_key = Inr, worksheet = Inr, add_worksheet = Inr, clear = Inr,
         update = (\<lambda>s d. Inl (OtherError ''APIError'')) \<rparr>
       (\<lambda>fs path recs. (None, fs(path \<mapsto> recs)))
       \<lparr> output_arg = None, no_upload = False \<rparr>
       [asdict (mk_ArrestRow None (Some ''Jane Doe'') None None None None None None)]
       Map.empty (0::nat))
     = Some (OtherError ''APIError'')
   \<and> ''completed successfully'' \<notin> set (printed (main_tail
       \<lparr> open_by_key = Inr, worksheet = Inr, add_worksheet = Inr, clear = Inr,
         update = (\<lambda>s d. Inl (OtherError ''APIError'')) \<rparr>
       (\<lambda>fs path recs. (None, fs(path \<mapsto> recs)))
       \<lparr> output_arg = None, no_upload = False \<rparr>
       [asdict (mk_ArrestRow None (Some ''Jane Doe'') None None None None None None)]
       Map.empty (0::nat)))"
  by (simp add: main_tail_def upload_to_google_sheets_def upload_failed_def Let_def)

section \<open>Properties of the version 2 extraction\<close>

text \<open>The shape of a version 2 record for a given date.\<close>

definition v2_shape :: "string \<Rightarrow> v2_record \<Rightarrow> bool" where
  "v2_shape date_str r =
     (map fst r = [''arrest_date'', ''raw_text'', ''scraped_at'']
      \<and> map_of r ''arrest_date'' = Some date_str
      \<and> (\<exists>text. map_of r ''raw_text'' = Some text \<and> length text > 10))"

lemma v2_shape_mk: "length text > 10 \<Longrightarrow> v2_shape date_str (mk_v2_record date_str text stamp)"
  by (simp add: v2_shape_def mk_v2_record_def)

lemma v2_rows_loop_shape:
  "list_all (v2_shape date_str) results
   \<Longrightarrow> list_all (v2_shape date_str) (v2_rows_loop date_str now rows results)"
  by (induction rows arbitrary: results) (auto simp: v2_shape_mk split: option.splits)

lemma v2_lines_loop_shape:
  "list_all (v2_shape date_str) results
   \<Longrightarrow> list_all (v2_shape date_str) (v2_lines_loop date_str now lines results)"
  by (induction lines arbitrary: results) (auto simp: v2_shape_mk)

lemma v2_extract_shape:
  "v2_extract date_str now fr = Inr results \<Longrightarrow> list_all (v2_shape date_str) results"
proof -
  assume a: "v2_extract date_str now fr = Inr results"
  have r: "list_all (v2_shape date_str) (v2_rows_loop date_str now (row_texts fr) [])"
    by (rule v2_rows_loop_shape) simp
  have l: "list_all (v2_shape date_str) (v2_lines_loop date_str now ls [])" for ls
    by (rule v2_lines_loop_shape) simp
  show ?thesis
  proof (cases "v2_rows_loop date_str now (row_texts fr) [] = []")
    case False
    with a have "results = v2_rows_loop date_str now (row_texts fr) []"
      by (simp add: v2_extract_def Let_def)
    with r show ?thesis by simp
  next
    case True
    with a l show ?thesis
      by (auto simp: v2_extract_def Let_def split: sum.splits if_splits)
  qed
qed

lemma v2_rows_loop_texts:
  "map (\<lambda>r. map_of r ''raw_text'') (v2_rows_loop date_str now rows results)
   = map (\<lambda>r. map_of r ''raw_text'') results
     @ map Some (filter (\<lambda>t. length t > 10) (List.map_filter id rows))"
proof (induction rows arbitrary: results)
  case Nil
  show ?case by (simp add: List.map_filter_simps)
next
  case (Cons row rows)
  show ?case
  proof (cases row)
    case None
    with Cons.IH [of results] show ?thesis by (simp add: List.map_filter_simps)
  next
    case (Some s)
    show ?thesis
    proof (cases "length s > 10")
      case True
      then have "s \<noteq> []" by auto
      with True Some
        Cons.IH [of "results @ [mk_v2_record date_str s (now (length results))]"]
      show ?thesis by (simp add: List.map_filter_simps mk_v2_record_def)
    next
      case False
      with Some Cons.IH [of results] show ?thesis by (simp add: List.map_filter_simps)
    qed
  qed
qed

lemma retry_call_returns_body:
  "fst (retry_call m wt body n sl w) = Inr v \<Longrightarrow> \<exists>w1. fst (body w1) = Inr v"
proof (induction m wt body n sl w rule: retry_call.induct)
  case (1 m wt body n sl w)
  obtain r w' where b: "body w = (r, w')" by (cases "body w")
  show ?case
  proof (cases r)
    case (Inr v')
    with b "1.prems" have "v' = v" by simp
    with b Inr have "fst (body w) = Inr v" by simp
    then show ?thesis by blast
  next
    case (Inl e)
    show ?thesis
    proof (cases "e = PWTimeoutError \<and> n < m")
      case True
      with b Inl "1.prems"
      have "fst (retry_call m wt body (Suc n) (sl @ [wt n]) w') = Inr v" by simp
      with "1.IH" b Inl True show ?thesis by auto
    next
      case False
      with b Inl "1.prems" show ?thesis by (auto split: if_splits)
    qed
  qed
qed

text \<open>
  Claim C10.  Whenever the decorated \<open>scrape_for_date\<close> of version 2 returns, every record
  of the result is a dictionary with exactly the keys \<open>arrest_date\<close>, \<open>raw_text\<close> and
  \<open>scraped_at\<close>, in this order, its \<open>arrest_date\<close> is the requested date string verbatim,
  and its \<open>raw_text\<close> is longer than 10 characters.  The records that the row loop makes
  are, in order, those of the rows whose text could be read and is longer than 10
  characters: a row with a shorter text contributes no record.
\<close>

theorem v2_records_raw_only:
  "(fst (scrape_for_date_v2 (v2_session now search) date_str w) = Inr results
     \<longrightarrow> (\<forall>r \<in> set results.
            map fst r = [''arrest_date'', ''raw_text'', ''scraped_at'']
            \<and> map_of r ''arrest_date'' = Some date_str
            \<and> (\<exists>text. map_of r ''raw_text'' = Some text \<and> length text > 10)))
   \<and> map (\<lambda>r. map_of r ''raw_text'') (v2_rows_loop date_str now rows [])
       = map Some (filter (\<lambda>t. length t > 10) (List.map_filter id rows))"
proof (intro conjI impI)
  assume "fst (scrape_for_date_v2 (v2_session now search) date_str w) = Inr results"
  then obtain w1 where "fst (v2_session now search date_str w1) = Inr results"
    using retry_call_returns_body [of 2 "wait_exponential 1 1 6"
        "v2_session now search date_str" 1 "[]" w results]
    by (auto simp: scrape_for_date_v2_def)
  then obtain fr where "v2_extract date_str now fr = Inr results"
    by (auto simp: v2_session_def split: prod.splits sum.splits)
  then have "list_all (v2_shape date_str) results"
    by (rule v2_extract_shape)
  then show "\<forall>r \<in> set results.
            map fst r = [''arrest_date'', ''raw_text'', ''scraped_at'']
            \<and> map_of r ''arrest_date'' = Some date_str
            \<and> (\<exists>text. map_of r ''raw_text'' = Some text \<and> length text > 10)"
    unfolding list_all_iff v2_shape_def by blast
next
  show "map (\<lambda>r. map_of r ''raw_text'') (v2_rows_loop date_str now rows [])
       = map Some (filter (\<lambda>t. length t > 10) (List.map_filter id rows))"
    using v2_rows_loop_texts [of date_str now rows "[]"] by simp
qed

theorem v2_records_raw_only_witness:
  "fst (scrape_for_date_v2
          (v2_session (\<lambda>k. ''2025-11-04T10:00:00'')
             (\<lambda>d w. (Inr \<lparr> row_texts = [Some ''Name DOB'', None, Some ''DOE, JANE 01/02/1990''],
                                body_text = Inr [] \<rparr>, w)))
          ''2025-01-02'' (0::nat))
   = Inr [[(''arrest_date'', ''2025-01-02''), (''raw_text'', ''DOE, JANE 01/02/1990''),
           (''scraped_at'', ''2025-11-04T10:00:00'')]]
   \<and> map_of [(''arrest_date'', ''2025-01-02''), (''raw_text'', ''DOE, JANE 01/02/1990''),
              (''scraped_at'', ''2025-11-04T10:00:00'')] ''arrest_date''
     = Some ''2025-01-02''"
proof -
  let ?now = "\<lambda>k::nat. ''2025-11-04T10:00:00''"
  let ?search = "\<lambda>(d::string) (w::nat).
        (Inr \<lparr> row_texts = [Some ''Name DOB'', None, Some ''DOE, JANE 01/02/1990''],
                 body_text = Inr [] \<rparr> :: py_error + v2_frame, w)"
  let ?r = "[(''arrest_date'', ''2025-01-02''), (''raw_text'', ''DOE, JANE 01/02/1990''),
           (''scraped_at'', ''2025-11-04T10:00:00'')]"
  have e: "fst (scrape_for_date_v2 (v2_session ?now ?search) ''2025-01-02'' (0::nat)) = Inr [?r]"
    by (simp add: scrape_for_date_v2_def v2_session_def v2_extract_def mk_v2_record_def Let_def)
  have "?r \<in> set [?r]" by simp
  with e v2_records_raw_only [of ?now ?search "''2025-01-02''" 0 "[?r]"]
  have "map_of ?r ''arrest_date'' = Some ''2025-01-02''" by blast
  with e show ?thesis by simp
qed

section \<open>Properties of the date normalizer\<close>
















































end
